theory Spec2Isabelle
  imports Complex_Main
begin

section \<open>Tenant rate review: the suggestion engine of streamlit\_app.py\<close>

text \<open>
  The program works on Python floats. A float is modelled as \<open>real option\<close>: \<open>None\<close> is
  the not-a-number value that pandas puts where a cell is missing or not numeric, and
  \<open>Some x\<close> is the number \<open>x\<close>, with exact arithmetic (binary rounding error and the
  infinities are left out). Strings are byte strings; the three non-ASCII symbols of
  the rationale texts are written as their UTF-8 bytes, and the character classes
  (white space, upper case) are the ASCII ones.
\<close>

subsection \<open>Floats with not-a-number\<close>

type_synonym num = "real option"

text \<open>Comparisons with not-a-number are false.\<close>

definition gt :: "num \<Rightarrow> num \<Rightarrow> bool" where
  "gt a b = (case a of None \<Rightarrow> False | Some x \<Rightarrow> (case b of None \<Rightarrow> False | Some y \<Rightarrow> y < x))"

definition lt :: "num \<Rightarrow> num \<Rightarrow> bool" where
  "lt a b = (case a of None \<Rightarrow> False | Some x \<Rightarrow> (case b of None \<Rightarrow> False | Some y \<Rightarrow> x < y))"

text \<open>Python's two-argument \<open>max\<close> and \<open>min\<close> keep the first argument unless the second
  one compares strictly greater (smaller).\<close>

definition py_max :: "num \<Rightarrow> num \<Rightarrow> num" where
  "py_max a b = (if gt b a then b else a)"

definition py_min :: "num \<Rightarrow> num \<Rightarrow> num" where
  "py_min a b = (if lt b a then b else a)"

definition fmul :: "num \<Rightarrow> real \<Rightarrow> num" where
  "fmul a k = (case a of None \<Rightarrow> None | Some x \<Rightarrow> Some (x * k))"

subsection \<open>Policy settings (the sidebar)\<close>

record policy =
  default_increase_pct :: real
  cadence_months :: int
  min_inc :: real
  max_inc :: real
  band_vs_comp :: real
  band_vs_standard :: real
  round_step :: int

text \<open>The values the sidebar starts with: 17 \%, 10 months, 8 \%, 18 \%, 3 \%, 5 \%, \$5.\<close>

definition sidebar_defaults :: policy where
  "sidebar_defaults = \<lparr>default_increase_pct = 17 / 100, cadence_months = 10,
     min_inc = 8 / 100, max_inc = 18 / 100, band_vs_comp = 3 / 100,
     band_vs_standard = 5 / 100, round_step = 5\<rparr>"

text \<open>The ranges of the sidebar's inputs: the percentages are divided by 100, the
  rounding step is 1 or 5. No relation between the minimum, the default and the maximum
  increase is checked.\<close>

definition sidebar_admits :: "policy \<Rightarrow> bool" where
  "sidebar_admits p =
     (0 \<le> default_increase_pct p \<and> default_increase_pct p \<le> 1 / 2
      \<and> 1 \<le> cadence_months p \<and> cadence_months p \<le> 36
      \<and> 0 \<le> min_inc p \<and> min_inc p \<le> 1 / 2
      \<and> 0 \<le> max_inc p \<and> max_inc p \<le> 1
      \<and> 0 \<le> band_vs_comp p \<and> band_vs_comp p \<le> 1 / 2
      \<and> 0 \<le> band_vs_standard p \<and> band_vs_standard p \<le> 1 / 2
      \<and> (round_step p = 1 \<or> round_step p = 5))"

subsection \<open>Rounding\<close>

datatype error = ValueError | ZeroDivisionError

text \<open>Python 3's one-argument \<open>round\<close> on a float: the nearest integer, a tie going to
  the even one.\<close>

definition py_round :: "real \<Rightarrow> int" where
  "py_round x = (let f = \<lfloor>x\<rfloor>; d = x - of_int f in
     if d < 1 / 2 then f else if 1 / 2 < d then f + 1 else if even f then f else f + 1)"

text \<open>\<open>int(round(val / step) * step)\<close>. The division raises for step 0, and \<open>round\<close>
  raises ValueError on not-a-number.\<close>

definition round_to_step :: "num \<Rightarrow> int \<Rightarrow> error + int" where
  "round_to_step val step =
     (if step = 0 then Inl ZeroDivisionError
      else case val of None \<Rightarrow> Inl ValueError
         | Some v \<Rightarrow> Inr (py_round (v / of_int step) * step))"

subsection \<open>Unit type keys\<close>

definition is_space :: "char \<Rightarrow> bool" where
  "is_space c = (c \<in> set [CHR 0x09, CHR 0x0A, CHR 0x0B, CHR 0x0C, CHR 0x0D,
     CHR 0x1C, CHR 0x1D, CHR 0x1E, CHR 0x1F, CHR '' ''])"

definition to_lower :: "char \<Rightarrow> char" where
  "to_lower c = (case map_of (zip ''ABCDEFGHIJKLMNOPQRSTUVWXYZ'' ''abcdefghijklmnopqrstuvwxyz'') c
     of None \<Rightarrow> c | Some d \<Rightarrow> d)"


text \<open>\<open>str.replace("\s*x\s*", "x", regex=True)\<close>: scanning from the left, a run of white
  space, a lower-case x and the white space after it become a single x; any other
  character is copied.\<close>

function tighten_x :: "string \<Rightarrow> string" where
  "tighten_x [] = []"
| "tighten_x (c # cs) =
     (case dropWhile is_space (c # cs) of
        [] \<Rightarrow> c # tighten_x cs
      | d # rest \<Rightarrow>
          if d = CHR ''x'' then CHR ''x'' # tighten_x (dropWhile is_space rest)
          else c # tighten_x cs)"
  by pat_completeness auto

lemma dropWhile_Cons_length:
  assumes "dropWhile P xs = d # rest"
  shows "length (dropWhile Q rest) < length xs"
proof -
  have "length (dropWhile Q rest) \<le> length rest"
    by (rule length_dropWhile_le)
  also have "length rest < length (dropWhile P xs)"
    using assms by simp
  also have "length (dropWhile P xs) \<le> length xs"
    by (rule length_dropWhile_le)
  finally show ?thesis .
qed

termination tighten_x
proof (relation "measure length")
  show "wf (measure length)"
    by simp
next
  fix c :: char and cs
  show "(cs, c # cs) \<in> measure length"
    by simp
next
  fix c :: char and cs d rest
  assume "dropWhile is_space (c # cs) = d # rest"
  then show "(dropWhile is_space rest, c # cs) \<in> measure length"
    using dropWhile_Cons_length [of is_space "c # cs" d rest is_space] by simp
next
  fix c :: char and cs d rest
  show "(cs, c # cs) \<in> measure length"
    by simp
qed

definition strip :: "string \<Rightarrow> string" where
  "strip s = rev (dropWhile is_space (rev (dropWhile is_space s)))"

definition lower :: "string \<Rightarrow> string" where
  "lower s = map to_lower s"

text \<open>The expression applied to the tenant column and to the competitor column:
  \<open>.str.replace("\s*x\s*", "x", regex=True).str.strip().str.lower()\<close>.\<close>

definition normalize_unit :: "string \<Rightarrow> string" where
  "normalize_unit s = lower (strip (tighten_x s))"

subsection \<open>Tenant rows\<close>

record tenant_row =
  unit_type :: string
  current_standard_rate :: num
  current_tenant_rate :: num
  pending_tenant_rate :: num
  months_since_last_increase :: num

text \<open>The data frame built from the upload: the unit type column is normalised, the
  numeric columns arrive already coerced (\<open>None\<close> where the cell was not a number).\<close>

definition tenant_frame :: "tenant_row list \<Rightarrow> tenant_row list" where
  "tenant_frame raw = map (\<lambda>r. r\<lparr>unit_type := normalize_unit (unit_type r)\<rparr>) raw"

subsection \<open>Competitor index\<close>

text \<open>\<open>comp_by_unit\<close> is a dictionary from unit type to a float that may be
  not-a-number: \<open>None\<close> is a missing key, \<open>Some None\<close> a key that holds not-a-number.\<close>

type_synonym comp_index = "string \<Rightarrow> num option"

text \<open>A cell of the \<open>comp_rate\<close> column as the CSV reader delivers it: a number (or
  not-a-number for an empty cell), or text that is no number. The column is not coerced.\<close>

datatype cell = Number num | Text string

fun is_number :: "cell \<Rightarrow> bool" where
  "is_number (Number x) = True"
| "is_number (Text t) = False"

definition numbers :: "cell list \<Rightarrow> real list" where
  "numbers xs = concat (map (\<lambda>x. case x of Number (Some v) \<Rightarrow> [v] | _ \<Rightarrow> []) xs)"

text \<open>The two means come from the libraries (\<open>.mean()\<close> of a pandas group and
  \<open>np.mean\<close>); the order in which they add up floats is theirs, so they are parameters of
  the model. \<open>arithmetic\<close> is the library that computes the exact arithmetic mean.\<close>

record library =
  group_mean :: "real list \<Rightarrow> num"
  np_mean :: "real list \<Rightarrow> num"

definition mean :: "real list \<Rightarrow> num" where
  "mean xs = (if xs = [] then None else Some (sum_list xs / real (length xs)))"

definition arithmetic :: library where
  "arithmetic = \<lparr>group_mean = mean, np_mean = mean\<rparr>"

text \<open>The cells of the manual rows whose normalised unit type is \<open>u\<close>.\<close>

definition rates_of :: "(string \<times> cell) list \<Rightarrow> string \<Rightarrow> cell list" where
  "rates_of rows u = map snd (filter (\<lambda>kr. normalize_unit (fst kr) = u) rows)"

text \<open>\<open>cdf.groupby("unit_type")["comp_rate"].mean().to_dict()\<close> after the unit type
  column was normalised. The mean of a group skips not-a-number cells and is
  not-a-number when no cell is left. With a text cell anywhere in the column the column
  holds strings and \<open>.mean()\<close> raises: \<open>None\<close> is that exception.\<close>

definition manual_index :: "library \<Rightarrow> (string \<times> cell) list \<Rightarrow> comp_index option" where
  "manual_index lib rows =
     (if list_all (\<lambda>kr. is_number (snd kr)) rows
      then Some (\<lambda>u. if u \<in> set (map (\<lambda>kr. normalize_unit (fst kr)) rows)
                      then Some (if numbers (rates_of rows u) = [] then None
                                 else group_mean lib (numbers (rates_of rows u)))
                      else None)
      else None)"

text \<open>The scraped prices arrive as one list per URL (empty when the fetch failed);
  they are pooled, and averaged when there is any.\<close>

definition global_avg :: "library \<Rightarrow> real list list \<Rightarrow> num" where
  "global_avg lib scraped = (if concat scraped = [] then None else np_mean lib (concat scraped))"

text \<open>The manual table is \<open>None\<close> when no file was uploaded. When the \<open>try\<close> block
  raises, the \<open>except\<close> branch reports it and the dictionary stays empty. Every unit
  type of the tenant frame that has no manual entry gets the global average.\<close>

definition comp_by_unit ::
  "library \<Rightarrow> (string \<times> cell) list option \<Rightarrow> real list list \<Rightarrow> tenant_row list
     \<Rightarrow> comp_index" where
  "comp_by_unit lib manual scraped df u =
     (case (case manual of
              None \<Rightarrow> None
            | Some rows \<Rightarrow> (case manual_index lib rows of None \<Rightarrow> None | Some idx \<Rightarrow> idx u)) of
        Some v \<Rightarrow> Some v
      | None \<Rightarrow> if u \<in> set (map unit_type df) then Some (global_avg lib scraped) else None)"

text \<open>\<open>comp_by_unit.get(unit, np.nan)\<close>\<close>

definition comp_get :: "comp_index \<Rightarrow> string \<Rightarrow> num" where
  "comp_get idx u = (case idx u of None \<Rightarrow> None | Some v \<Rightarrow> v)"

subsection \<open>Rationale clauses\<close>

text \<open>One constructor for each text that \<open>suggest\<close> appends to its rationale list.\<close>

datatype clause =
  CompAvg string real
| AboveCeiling real
| BelowFloor real
| NoCompetitorData
| OverStandardCap real
| PendingCmp real int string
| NoPending int

function digits :: "nat \<Rightarrow> string" where
  "digits n = (if n < 10 then [''0123456789'' ! n]
     else digits (n div 10) @ [''0123456789'' ! (n mod 10)])"
  by pat_completeness auto

termination digits
  by (relation "measure id") auto

text \<open>The format \<open>:.0f\<close>: no decimals, ties to even, the sign kept.\<close>

definition fmt0 :: "real \<Rightarrow> string" where
  "fmt0 x = (if x < 0 then ''-'' else []) @ digits (nat \<bar>py_round x\<bar>)"

fun render :: "clause \<Rightarrow> string" where
  "render (CompAvg unit comp_avg) =
     ''Comp avg for '' @ [CHR 0x27] @ unit @ [CHR 0x27] @ '' '' @ [CHR 0xE2, CHR 0x89, CHR 0x88]
       @ '' $'' @ fmt0 comp_avg @ ''.''"
| "render (AboveCeiling comp_max) = ''Above comp ceiling $'' @ fmt0 comp_max @ ''; capping.''"
| "render (BelowFloor comp_min) = ''Below comp floor $'' @ fmt0 comp_min @ ''; raising.''"
| "render NoCompetitorData = ''No competitor data; using policy caps/standard.''"
| "render (OverStandardCap std_cap) = ''Over standard cap $'' @ fmt0 std_cap @ ''; capping.''"
| "render (PendingCmp pend target action) =
     ''Pending $'' @ fmt0 pend @ '' '' @ [CHR 0xE2, CHR 0x86, CHR 0x92] @ '' Suggested $''
       @ fmt0 (of_int target) @ '' '' @ [CHR 0xE2, CHR 0x87, CHR 0x92] @ '' '' @ action @ ''.''"
| "render (NoPending target) = ''No pending; set $'' @ fmt0 (of_int target) @ ''.''"

text \<open>\<open>" ".join(rationale)\<close>\<close>

fun join :: "string list \<Rightarrow> string" where
  "join [] = []"
| "join [s] = s"
| "join (s # t # ss) = s @ '' '' @ join (t # ss)"

subsection \<open>The suggestion for one row\<close>

record suggestion =
  suggested_rate :: int
  action :: string
  rationale :: string

text \<open>Base target per cadence: the default increase, halved and floored at the
  minimum when the months since the last increase are known and below the cadence.\<close>

definition base_inc :: "policy \<Rightarrow> num \<Rightarrow> real" where
  "base_inc p months =
     (case months of
        None \<Rightarrow> default_increase_pct p
      | Some m \<Rightarrow>
          if m < of_int (cadence_months p)
          then max (min_inc p) (default_increase_pct p / 2)
          else default_increase_pct p)"

text \<open>\<open>target = cur * (1 + base_inc)\<close> and
  \<open>target = max(cur * (1 + min_inc), min(cur * (1 + max_inc), target))\<close>.\<close>

definition policy_target :: "policy \<Rightarrow> tenant_row \<Rightarrow> num" where
  "policy_target p row =
     (let cur = current_tenant_rate row;
          target = fmul cur (1 + base_inc p (months_since_last_increase row))
      in py_max (fmul cur (1 + min_inc p)) (py_min (fmul cur (1 + max_inc p)) target))"

text \<open>The competitor band: the target and the rationale list after it.\<close>

definition comp_band :: "policy \<Rightarrow> string \<Rightarrow> num \<Rightarrow> num \<Rightarrow> num \<times> clause list" where
  "comp_band p unit comp_avg target =
     (case comp_avg of
        None \<Rightarrow> (target, [NoCompetitorData])
      | Some c \<Rightarrow>
          (let comp_max = c * (1 + band_vs_comp p);
               comp_min = c * (1 - band_vs_comp p);
               r0 = [CompAvg unit c];
               capped = gt target (Some comp_max);
               t1 = (if capped then Some comp_max else target);
               r1 = (if capped then r0 @ [AboveCeiling comp_max] else r0);
               raised = lt t1 (Some comp_min);
               t2 = (if raised then py_max t1 (Some comp_min) else t1);
               r2 = (if raised then r1 @ [BelowFloor comp_min] else r1)
           in (t2, r2)))"

text \<open>The cap at the standard rate.\<close>

definition standard_cap :: "policy \<Rightarrow> num \<Rightarrow> num \<times> clause list \<Rightarrow> num \<times> clause list" where
  "standard_cap p std tr =
     (case std of
        None \<Rightarrow> tr
      | Some s \<Rightarrow>
          (let std_cap = s * (1 + band_vs_standard p)
           in if gt (fst tr) (Some std_cap)
              then (Some std_cap, snd tr @ [OverStandardCap std_cap])
              else tr))"

text \<open>The target and the rationale list just before the call of \<open>round_to_step\<close>.\<close>

definition pre_round :: "policy \<Rightarrow> comp_index \<Rightarrow> tenant_row \<Rightarrow> num \<times> clause list" where
  "pre_round p idx row =
     standard_cap p (current_standard_rate row)
       (comp_band p (unit_type row) (comp_get idx (unit_type row)) (policy_target p row))"

text \<open>The comparison with the pending rate.\<close>

definition classify :: "real \<Rightarrow> int \<Rightarrow> string" where
  "classify pend target =
     (if pend * (101 / 100) < of_int target then ''increase''
      else if of_int target < pend * (99 / 100) then ''decrease''
      else ''keep'')"

text \<open>The rounded target, the action and the complete rationale list.\<close>

definition suggest_clauses ::
  "policy \<Rightarrow> comp_index \<Rightarrow> tenant_row \<Rightarrow> error + (int \<times> string \<times> clause list)" where
  "suggest_clauses p idx row =
     (case round_to_step (fst (pre_round p idx row)) (round_step p) of
        Inl e \<Rightarrow> Inl e
      | Inr target \<Rightarrow>
          (case pending_tenant_rate row of
             Some pend \<Rightarrow>
               Inr (target, classify pend target,
                    snd (pre_round p idx row) @ [PendingCmp pend target (classify pend target)])
           | None \<Rightarrow>
               Inr (target, ''set'', snd (pre_round p idx row) @ [NoPending target])))"

definition suggest :: "policy \<Rightarrow> comp_index \<Rightarrow> tenant_row \<Rightarrow> error + suggestion" where
  "suggest p idx row =
     (case suggest_clauses p idx row of
        Inl e \<Rightarrow> Inl e
      | Inr (target, act, rs) \<Rightarrow>
          Inr \<lparr>suggested_rate = target, action = act, rationale = join (map render rs)\<rparr>)"

subsection \<open>The batch\<close>

text \<open>\<open>df.apply(suggest, axis=1)\<close>: the rows in order; an exception raised for one row
  leaves the loop and no table is produced.\<close>

fun suggest_all :: "policy \<Rightarrow> comp_index \<Rightarrow> tenant_row list \<Rightarrow> error + suggestion list" where
  "suggest_all p idx [] = Inr []"
| "suggest_all p idx (row # rows) =
     (case suggest p idx row of
        Inl e \<Rightarrow> Inl e
      | Inr s \<Rightarrow> (case suggest_all p idx rows of Inl e \<Rightarrow> Inl e | Inr ss \<Rightarrow> Inr (s # ss)))"

text \<open>The whole run: frame, competitor index, suggestions.\<close>

definition run ::
  "library \<Rightarrow> policy \<Rightarrow> (string \<times> cell) list option \<Rightarrow> real list list \<Rightarrow> tenant_row list
     \<Rightarrow> error + suggestion list" where
  "run lib p manual scraped raw =
     (let df = tenant_frame raw
      in suggest_all p (comp_by_unit lib manual scraped df) df)"

subsection \<open>Stages and sample inputs used in the statements\<close>

text \<open>The target after the competitor band, before the cap at the standard rate.\<close>

definition banded_target :: "policy \<Rightarrow> comp_index \<Rightarrow> tenant_row \<Rightarrow> num" where
  "banded_target p idx row =
     fst (comp_band p (unit_type row) (comp_get idx (unit_type row)) (policy_target p row))"

text \<open>A row with only a current rate of 1000, and sidebar settings whose minimum
  increase exceeds the maximum.\<close>

definition example_row :: tenant_row where
  "example_row = \<lparr>unit_type = ''10x20'', current_standard_rate = None,
     current_tenant_rate = Some 1000, pending_tenant_rate = None,
     months_since_last_increase = None\<rparr>"

definition inconsistent_policy :: policy where
  "inconsistent_policy = sidebar_defaults\<lparr>min_inc := 20 / 100, max_inc := 10 / 100\<rparr>"

text \<open>The clauses that tell of the competitor average, the clause the rationale
  starts with, and the clause it ends with.\<close>

fun is_comp_clause :: "clause \<Rightarrow> bool" where
  "is_comp_clause (CompAvg unit comp_avg) = True"
| "is_comp_clause NoCompetitorData = True"
| "is_comp_clause c = False"

definition comp_clause :: "string \<Rightarrow> num \<Rightarrow> clause" where
  "comp_clause unit comp_avg = (case comp_avg of None \<Rightarrow> NoCompetitorData | Some c \<Rightarrow> CompAvg unit c)"

definition pending_clause :: "num \<Rightarrow> int \<Rightarrow> string \<Rightarrow> clause" where
  "pending_clause pend target act =
     (case pend of None \<Rightarrow> NoPending target | Some v \<Rightarrow> PendingCmp v target act)"

text \<open>The manual table as the index sees it: the rows of a table that was read, no
  row when there is no table or reading it raised.\<close>

definition manual_rows :: "(string \<times> cell) list option \<Rightarrow> (string \<times> cell) list" where
  "manual_rows manual =
     (case manual of
        None \<Rightarrow> []
      | Some rows \<Rightarrow> if list_all (\<lambda>kr. is_number (snd kr)) rows then rows else [])"



section \<open>Properties\<close>

subsection \<open>Rounding to the step\<close>








subsection \<open>Evaluation and basic facts\<close>

lemmas eval_defs = suggest_def suggest_clauses_def pre_round_def standard_cap_def comp_band_def
  comp_get_def policy_target_def base_inc_def example_row_def sidebar_defaults_def
  inconsistent_policy_def fmul_def py_max_def py_min_def gt_def lt_def round_to_step_def
  py_round_def Let_def classify_def banded_target_def sidebar_admits_def

lemma py_max_Some: "py_max (Some a) (Some b) = Some (max a b)"
  by (simp add: py_max_def gt_def max_def)

lemma py_min_Some: "py_min (Some a) (Some b) = Some (min a b)"
  by (simp add: py_min_def lt_def min_def)

lemma policy_target_Some:
  assumes "current_tenant_rate row = Some c"
  shows "policy_target p row =
    Some (max (c * (1 + min_inc p))
       (min (c * (1 + max_inc p)) (c * (1 + base_inc p (months_since_last_increase row)))))"
  using assms by (simp add: policy_target_def fmul_def py_max_Some py_min_Some)

lemma policy_target_None:
  assumes "current_tenant_rate row = None"
  shows "policy_target p row = None"
  using assms by (simp add: policy_target_def fmul_def py_max_def py_min_def gt_def lt_def)

lemma comp_band_None: "comp_band p u None t = (t, [NoCompetitorData])"
  by (simp add: comp_band_def)

lemma standard_cap_None: "standard_cap p None tr = tr"
  by (simp add: standard_cap_def)

lemma pre_round_quiet:
  assumes "length (snd (pre_round p idx row)) = 1"
  shows "fst (pre_round p idx row) = policy_target p row"
  using assms
  by (auto simp add: pre_round_def standard_cap_def comp_band_def Let_def
      split: option.splits if_splits)

lemma pre_round_no_signals:
  assumes "comp_get idx (unit_type row) = None" and "current_standard_rate row = None"
  shows "pre_round p idx row = (policy_target p row, [NoCompetitorData])"
  using assms by (simp add: pre_round_def comp_band_None standard_cap_None)

lemma comp_band_clamp:
  assumes "0 \<le> c" and "0 \<le> band_vs_comp p"
  shows "fst (comp_band p u (Some c) (Some t))
    = Some (max (c * (1 - band_vs_comp p)) (min (c * (1 + band_vs_comp p)) t))"
proof -
  have "c * (1 - band_vs_comp p) \<le> c * (1 + band_vs_comp p)"
    using assms by (simp add: mult_left_mono)
  then show ?thesis
    by (auto simp add: comp_band_def Let_def gt_def lt_def py_max_def max_def min_def)
qed

lemma policy_target_band: "policy_target (p\<lparr>band_vs_comp := b\<rparr>) row = policy_target p row"
  by (simp add: policy_target_def base_inc_def split: option.splits)

subsection \<open>The policy envelope\<close>

text \<open>
  Claim C2, as the code has it. For every row with a current tenant rate \<open>c > 0\<close> and
  every policy, the target after the policy clamp is at least \<open>c * (1 + min_inc)\<close> and,
  when \<open>min_inc \<le> max_inc\<close>, at most \<open>c * (1 + max_inc)\<close>. The target before rounding
  equals this clamped target whenever no competitor ceiling, competitor floor or
  standard cap fired (the rationale list then holds the competitor clause only); a
  bound that fires replaces the target, also by a value outside the envelope.
\<close>

theorem policy_envelope:
  assumes "current_tenant_rate row = Some c" and "0 < c"
  shows "\<exists>t. policy_target p row = Some t
           \<and> c * (1 + min_inc p) \<le> t
           \<and> (min_inc p \<le> max_inc p \<longrightarrow> t \<le> c * (1 + max_inc p))
           \<and> (length (snd (pre_round p idx row)) = 1 \<longrightarrow> fst (pre_round p idx row) = Some t)"
proof (intro exI conjI impI)
  show "policy_target p row =
    Some (max (c * (1 + min_inc p))
       (min (c * (1 + max_inc p)) (c * (1 + base_inc p (months_since_last_increase row)))))"
    by (rule policy_target_Some [OF assms(1)])
  show "c * (1 + min_inc p) \<le> max (c * (1 + min_inc p))
       (min (c * (1 + max_inc p)) (c * (1 + base_inc p (months_since_last_increase row))))"
    by simp
  show "max (c * (1 + min_inc p))
       (min (c * (1 + max_inc p)) (c * (1 + base_inc p (months_since_last_increase row))))
      \<le> c * (1 + max_inc p)" if "min_inc p \<le> max_inc p"
    using that assms(2) by (simp add: mult_left_mono)
  show "fst (pre_round p idx row) = Some (max (c * (1 + min_inc p))
       (min (c * (1 + max_inc p)) (c * (1 + base_inc p (months_since_last_increase row)))))"
    if "length (snd (pre_round p idx row)) = 1"
    using pre_round_quiet [OF that] policy_target_Some [OF assms(1)] by simp
qed

text \<open>The theorem at the sample row and the sidebar defaults, without competitor data.\<close>

theorem policy_envelope_witness:
  "\<exists>t. fst (pre_round sidebar_defaults (\<lambda>u. None) example_row) = Some t \<and> 1080 \<le> t \<and> t \<le> 1180"
proof -
  have cur: "current_tenant_rate example_row = Some 1000"
    by (simp add: example_row_def)
  have quiet: "length (snd (pre_round sidebar_defaults (\<lambda>u. None) example_row)) = 1"
    by (simp add: pre_round_no_signals comp_get_def example_row_def)
  from policy_envelope [OF cur, of sidebar_defaults "\<lambda>u. None"] quiet
  show ?thesis by (auto simp add: sidebar_defaults_def)
qed

text \<open>Claim C2 as stated fails: with the sidebar defaults, a current rate of 1000 and a
  competitor average of 900 the ceiling 927 replaces the target, below the envelope's
  lower end 1080.\<close>

theorem competitor_cap_leaves_envelope_counterexample:
  "sidebar_admits sidebar_defaults
   \<and> current_tenant_rate example_row = Some 1000
   \<and> fst (pre_round sidebar_defaults (\<lambda>u. Some (Some 900)) example_row) = Some 927
   \<and> fmul (current_tenant_rate example_row) (1 + min_inc sidebar_defaults) = Some 1080"
  by (simp add: eval_defs)

text \<open>
  Claim C3, as the code has it. For every policy with \<open>min_inc > max_inc\<close> and every row
  with a current tenant rate \<open>c \<ge> 0\<close>, the policy clamp produces the min-bound value
  \<open>c * (1 + min_inc)\<close>: the lower clamp is the outer \<open>max\<close> of the expression and wins.
\<close>

theorem inconsistent_policy_gives_min_bound:
  assumes "max_inc p < min_inc p" and "current_tenant_rate row = Some c" and "0 \<le> c"
  shows "policy_target p row = Some (c * (1 + min_inc p))"
proof -
  have "c * (1 + max_inc p) \<le> c * (1 + min_inc p)"
    using assms(1,3) by (simp add: mult_left_mono)
  then show ?thesis
    unfolding policy_target_Some [OF assms(2)] by simp
qed

text \<open>The theorem at a minimum of 20 \% and a maximum of 10 \%: 1000 becomes 1200.\<close>

theorem inconsistent_policy_gives_min_bound_witness:
  "policy_target inconsistent_policy example_row = Some 1200"
proof -
  have "max_inc inconsistent_policy < min_inc inconsistent_policy"
    by (simp add: inconsistent_policy_def)
  moreover have "current_tenant_rate example_row = Some 1000"
    by (simp add: example_row_def)
  ultimately have "policy_target inconsistent_policy example_row
      = Some (1000 * (1 + min_inc inconsistent_policy))"
    by (rule inconsistent_policy_gives_min_bound) simp
  then show ?thesis by (simp add: inconsistent_policy_def)
qed

text \<open>Claim C3 as stated fails: the clamp gives 1200, and the max-bound value is 1100.\<close>

theorem max_bound_counterexample:
  "sidebar_admits inconsistent_policy
   \<and> max_inc inconsistent_policy < min_inc inconsistent_policy
   \<and> policy_target inconsistent_policy example_row = Some 1200
   \<and> fmul (current_tenant_rate example_row) (1 + max_inc inconsistent_policy) = Some 1100"
  by (simp add: eval_defs)

subsection \<open>Cadence throttling\<close>

text \<open>
  Claim C6, as the code has it. For every row whose months since the last increase are
  known and strictly below the cadence, the base increase is
  \<open>max min_inc (default_increase_pct / 2)\<close>; it is at most the base of the unthrottled
  case (\<open>default_increase_pct\<close>) exactly when \<open>min_inc \<le> default_increase_pct\<close> and
  \<open>0 \<le> default_increase_pct\<close>.
\<close>

theorem throttled_base:
  assumes "months_since_last_increase row = Some m" and "m < of_int (cadence_months p)"
  shows "base_inc p (months_since_last_increase row) = max (min_inc p) (default_increase_pct p / 2)
     \<and> (base_inc p (months_since_last_increase row) \<le> base_inc p None
          \<longleftrightarrow> min_inc p \<le> default_increase_pct p \<and> 0 \<le> default_increase_pct p)"
  using assms by (auto simp add: base_inc_def)

text \<open>The theorem at the sidebar defaults and 3 months: the base is 8.5 \%.\<close>

theorem throttled_base_witness:
  "base_inc sidebar_defaults (Some 3) = 17 / 200 \<and> base_inc sidebar_defaults (Some 3) \<le> base_inc sidebar_defaults None"
proof -
  define row where "row = example_row\<lparr>months_since_last_increase := Some 3\<rparr>"
  have m: "months_since_last_increase row = Some 3" by (simp add: row_def)
  have c: "(3::real) < of_int (cadence_months sidebar_defaults)" by (simp add: sidebar_defaults_def)
  from throttled_base [OF m c] m show ?thesis by (simp add: sidebar_defaults_def)
qed

text \<open>Claim C6 as stated fails: with a default of 10 \% and a minimum of 20 \% the
  throttled base is 20 \%, above the unthrottled 10 \%.\<close>

theorem throttled_base_counterexample:
  "sidebar_admits (sidebar_defaults\<lparr>default_increase_pct := 10 / 100, min_inc := 20 / 100\<rparr>)
   \<and> base_inc (sidebar_defaults\<lparr>default_increase_pct := 10 / 100, min_inc := 20 / 100\<rparr>) (Some 3) = 20 / 100
   \<and> base_inc (sidebar_defaults\<lparr>default_increase_pct := 10 / 100, min_inc := 20 / 100\<rparr>) None = 10 / 100"
  by (simp add: base_inc_def sidebar_defaults_def sidebar_admits_def)

subsection \<open>No competitor data and no standard rate\<close>




subsection \<open>Competitor banding\<close>

lemma comp_band_negative:
  assumes "c < 0" and "0 \<le> band_vs_comp p" and "band_vs_comp p \<le> 1" and "0 \<le> t"
  shows "fst (comp_band p u (Some c) (Some t)) = Some (c * (1 - band_vs_comp p))"
proof -
  have 1: "c * (1 + band_vs_comp p) \<le> c * (1 - band_vs_comp p)"
    using assms(1,2) by (simp add: mult_le_cancel_left)
  have 2: "c * (1 - band_vs_comp p) \<le> 0"
    using assms(1,3) by (simp add: mult_le_0_iff)
  have 3: "c * (1 + band_vs_comp p) < 0"
    using assms(1,2) by (simp add: mult_less_0_iff)
  show ?thesis
    using 1 2 3 assms(4)
    by (auto simp add: comp_band_def Let_def gt_def lt_def py_max_def)
qed

text \<open>
  Claim C8. For every row with a current rate \<open>r \<ge> 0\<close> and a known competitor average,
  every policy with a minimum increase \<open>\<ge> 0\<close>, and any two band values
  \<open>0 \<le> b1 \<le> b2 \<le> 1\<close> (the sidebar admits bands from 0 to 50 \%), the target after
  banding with \<open>b2\<close> is at least as close to the target before banding as the target
  after banding with \<open>b1\<close>.
\<close>

theorem banding_monotone:
  assumes "current_tenant_rate row = Some r" and "0 \<le> r" and "0 \<le> min_inc p"
    and "comp_get idx (unit_type row) = Some c"
    and "0 \<le> b1" and "b1 \<le> b2" and "b2 \<le> 1"
  shows "\<exists>t t1 t2. policy_target p row = Some t
           \<and> banded_target (p\<lparr>band_vs_comp := b1\<rparr>) idx row = Some t1
           \<and> banded_target (p\<lparr>band_vs_comp := b2\<rparr>) idx row = Some t2
           \<and> \<bar>t2 - t\<bar> \<le> \<bar>t1 - t\<bar>"
proof -
  define t where "t = max (r * (1 + min_inc p))
       (min (r * (1 + max_inc p)) (r * (1 + base_inc p (months_since_last_increase row))))"
  have t: "policy_target p row = Some t"
    using policy_target_Some [OF assms(1)] by (simp add: t_def)
  have "0 \<le> r * (1 + min_inc p)"
    using assms(2,3) by simp
  then have t0: "0 \<le> t"
    by (simp add: t_def)
  have b2: "0 \<le> b2" and b1: "b1 \<le> 1"
    using assms(5,6,7) by simp_all
  show ?thesis
  proof (cases "0 \<le> c")
    case True
    define t1 where "t1 = max (c * (1 - b1)) (min (c * (1 + b1)) t)"
    define t2 where "t2 = max (c * (1 - b2)) (min (c * (1 + b2)) t)"
    have 1: "banded_target (p\<lparr>band_vs_comp := b1\<rparr>) idx row = Some t1"
      using comp_band_clamp [of c "p\<lparr>band_vs_comp := b1\<rparr>" "unit_type row" t] assms(4,5) True t
      by (simp add: banded_target_def policy_target_band t1_def)
    have 2: "banded_target (p\<lparr>band_vs_comp := b2\<rparr>) idx row = Some t2"
      using comp_band_clamp [of c "p\<lparr>band_vs_comp := b2\<rparr>" "unit_type row" t] assms(4) True b2 t
      by (simp add: banded_target_def policy_target_band t2_def)
    have hi: "c * (1 + b1) \<le> c * (1 + b2)"
      using True assms(6) by (simp add: mult_left_mono)
    have lo: "c * (1 - b2) \<le> c * (1 - b1)"
      using True assms(6) by (simp add: mult_left_mono)
    have mid1: "c * (1 - b1) \<le> c * (1 + b1)"
      using True assms(5) by (simp add: mult_left_mono)
    have "\<bar>t2 - t\<bar> \<le> \<bar>t1 - t\<bar>"
      unfolding t1_def t2_def using hi lo mid1 by (simp add: max_def min_def abs_if)
    with t 1 2 show ?thesis by blast
  next
    case False
    then have c: "c < 0" by simp
    have 1: "banded_target (p\<lparr>band_vs_comp := b1\<rparr>) idx row = Some (c * (1 - b1))"
      using comp_band_negative [of c "p\<lparr>band_vs_comp := b1\<rparr>" t "unit_type row"] c assms(4,5) b1 t0 t
      by (simp add: banded_target_def policy_target_band)
    have 2: "banded_target (p\<lparr>band_vs_comp := b2\<rparr>) idx row = Some (c * (1 - b2))"
      using comp_band_negative [of c "p\<lparr>band_vs_comp := b2\<rparr>" t "unit_type row"] c assms(4,7) b2 t0 t
      by (simp add: banded_target_def policy_target_band)
    have le: "c * (1 - b1) \<le> c * (1 - b2)"
      using c assms(6) by (simp add: mult_le_cancel_left)
    have "c * (1 - b2) \<le> 0"
      using c assms(7) by (simp add: mult_le_0_iff)
    with le t0 have "\<bar>c * (1 - b2) - t\<bar> \<le> \<bar>c * (1 - b1) - t\<bar>"
      by simp
    with t 1 2 show ?thesis by blast
  qed
qed

text \<open>The theorem at a competitor average of 1100 and the bands 3 \% and 5 \%.\<close>

theorem banding_monotone_witness:
  "\<exists>t t1 t2. policy_target sidebar_defaults example_row = Some t
     \<and> banded_target (sidebar_defaults\<lparr>band_vs_comp := 3 / 100\<rparr>) (\<lambda>u. Some (Some 1100)) example_row = Some t1
     \<and> banded_target (sidebar_defaults\<lparr>band_vs_comp := 5 / 100\<rparr>) (\<lambda>u. Some (Some 1100)) example_row = Some t2
     \<and> \<bar>t2 - t\<bar> \<le> \<bar>t1 - t\<bar>"
proof -
  have cur: "current_tenant_rate example_row = Some 1000"
    by (simp add: example_row_def)
  have comp: "comp_get (\<lambda>u. Some (Some 1100)) (unit_type example_row) = Some 1100"
    by (simp add: comp_get_def)
  show ?thesis
    by (rule banding_monotone [OF cur _ _ comp]) (simp_all add: sidebar_defaults_def)
qed

subsection \<open>A row without a current tenant rate\<close>

lemma suggest_missing_rate_raises:
  assumes "current_tenant_rate row = None"
  shows "suggest p idx row = Inl (if round_step p = 0 then ZeroDivisionError else ValueError)"
proof -
  have "policy_target p row = None"
    by (rule policy_target_None [OF assms])
  then have "fst (pre_round p idx row) = None"
    by (simp add: pre_round_def standard_cap_def comp_band_def Let_def gt_def lt_def
        split: option.splits)
  then show ?thesis
    by (simp add: suggest_def suggest_clauses_def round_to_step_def)
qed

lemma suggest_all_raises:
  assumes "row \<in> set rows" and "current_tenant_rate row = None"
  shows "\<exists>e. suggest_all p idx rows = Inl e"
  using assms
proof (induction rows)
  case Nil
  then show ?case by simp
next
  case (Cons a rows)
  show ?case
  proof (cases "suggest p idx a")
    case (Inl e)
    then show ?thesis by simp
  next
    case (Inr s)
    with Cons.prems suggest_missing_rate_raises [of a p idx] have "row \<in> set rows"
      by auto
    with Cons.IH Cons.prems(2) obtain e where "suggest_all p idx rows = Inl e"
      by blast
    with Inr show ?thesis by simp
  qed
qed

text \<open>
  Claim C1 says that a row whose current tenant rate is missing is reported as a
  flagged row while every other row still gets its suggestion. The code at a batch of
  two rows, the first without a current rate: rounding not-a-number raises ValueError
  and the batch yields no table, although the second row alone gets its suggestion.
\<close>

theorem missing_rate_aborts_batch:
  "run arithmetic sidebar_defaults None [] [example_row\<lparr>current_tenant_rate := None\<rparr>, example_row]
     = Inl ValueError
   \<and> run arithmetic sidebar_defaults None [] [example_row]
     = Inr [\<lparr>suggested_rate = 1170, action = ''set'',
             rationale = ''No competitor data; using policy caps/standard. No pending; set $1170.''\<rparr>]"
  by (simp add: run_def tenant_frame_def comp_by_unit_def normalize_unit_def strip_def lower_def
      is_space_def to_lower_def fmt0_def global_avg_def mean_def eval_defs)

subsection \<open>The rationale\<close>

lemma comp_band_clauses:
  "\<exists>bs. snd (comp_band p u ca t) = comp_clause u ca # bs \<and> filter is_comp_clause bs = []"
  by (cases ca) (simp_all add: comp_band_def comp_clause_def Let_def)

lemma standard_cap_clauses:
  "\<exists>bs. snd (standard_cap p std tr) = snd tr @ bs \<and> filter is_comp_clause bs = []"
  by (cases std) (simp_all add: standard_cap_def Let_def)

lemma pre_round_clauses:
  "\<exists>bs. snd (pre_round p idx row) = comp_clause (unit_type row) (comp_get idx (unit_type row)) # bs
        \<and> filter is_comp_clause bs = []"
proof -
  let ?cb = "comp_band p (unit_type row) (comp_get idx (unit_type row)) (policy_target p row)"
  obtain bs where bs: "snd ?cb = comp_clause (unit_type row) (comp_get idx (unit_type row)) # bs"
    and nbs: "filter is_comp_clause bs = []"
    using comp_band_clauses by blast
  obtain cs where cs: "snd (standard_cap p (current_standard_rate row) ?cb) = snd ?cb @ cs"
    and ncs: "filter is_comp_clause cs = []"
    using standard_cap_clauses by blast
  have "snd (pre_round p idx row)
      = comp_clause (unit_type row) (comp_get idx (unit_type row)) # (bs @ cs)"
    using bs cs by (simp add: pre_round_def)
  moreover have "filter is_comp_clause (bs @ cs) = []"
    using nbs ncs by simp
  ultimately show ?thesis by blast
qed

lemma is_comp_clause_comp_clause: "is_comp_clause (comp_clause u ca)"
  by (cases ca) (simp_all add: comp_clause_def)

lemma not_comp_pending_clause: "\<not> is_comp_clause (pending_clause pend t a)"
  by (cases pend) (simp_all add: pending_clause_def)

lemma render_nonempty: "render c \<noteq> []"
  by (cases c) simp_all

lemma join_nonempty: "s \<noteq> [] \<Longrightarrow> join (s # ss) \<noteq> []"
  by (cases ss) simp_all

lemma join_Cons: "ss \<noteq> [] \<Longrightarrow> join (s # ss) = s @ '' '' @ join ss"
  by (cases ss) simp_all

lemma join_snoc: "ss \<noteq> [] \<Longrightarrow> join (ss @ [s]) = join ss @ '' '' @ s"
proof (induction ss rule: join.induct)
  case 1
  then show ?case by simp
next
  case (2 t)
  show ?case by simp
next
  case (3 t u us)
  then show ?case by simp
qed

lemma join_first_last:
  "\<exists>mid. join (map render (c # bs @ [d])) = render c @ mid @ '' '' @ render d"
proof (cases bs)
  case Nil
  then show ?thesis by simp
next
  case (Cons b bs')
  have "join (map render (c # bs @ [d])) = render c @ '' '' @ join (map render bs @ [render d])"
    by (simp add: join_Cons)
  also have "join (map render bs @ [render d]) = join (map render bs) @ '' '' @ render d"
    using Cons by (simp only: join_snoc map_is_Nil_conv list.distinct simp_thms)
  finally show ?thesis by (metis append.assoc)
qed

text \<open>
  Claim C10. For every row for which \<open>suggest\<close> returns a suggestion, the rationale is
  not empty. It is the joined text of a list of clauses whose first clause is the
  competitor-average clause when a competitor average is known and the "No competitor
  data" clause otherwise, which holds exactly one clause of these two kinds, and whose
  last clause is the pending comparison when a pending rate is known and the "No
  pending; set" clause otherwise; the emitted text starts with the text of that first
  clause and ends with a blank and the text of that last clause.
\<close>

theorem rationale_shape:
  assumes "suggest p idx row = Inr s"
  shows "\<exists>cs mid. suggest_clauses p idx row = Inr (suggested_rate s, action s, cs)
           \<and> rationale s = join (map render cs)
           \<and> rationale s \<noteq> [] \<and> cs \<noteq> []
           \<and> hd cs = comp_clause (unit_type row) (comp_get idx (unit_type row))
           \<and> length (filter is_comp_clause cs) = 1
           \<and> last cs = pending_clause (pending_tenant_rate row) (suggested_rate s) (action s)
           \<and> rationale s =
               (case comp_get idx (unit_type row) of
                  None \<Rightarrow> ''No competitor data; using policy caps/standard.''
                | Some c \<Rightarrow> ''Comp avg for '' @ [CHR 0x27] @ unit_type row @ [CHR 0x27] @ '' ''
                    @ [CHR 0xE2, CHR 0x89, CHR 0x88] @ '' $'' @ fmt0 c @ ''.'')
               @ mid @ '' '' @
               (case pending_tenant_rate row of
                  None \<Rightarrow> ''No pending; set $'' @ fmt0 (of_int (suggested_rate s)) @ ''.''
                | Some pend \<Rightarrow> ''Pending $'' @ fmt0 pend @ '' '' @ [CHR 0xE2, CHR 0x86, CHR 0x92]
                    @ '' Suggested $'' @ fmt0 (of_int (suggested_rate s)) @ '' ''
                    @ [CHR 0xE2, CHR 0x87, CHR 0x92] @ '' '' @ action s @ ''.'')"
proof -
  let ?first = "comp_clause (unit_type row) (comp_get idx (unit_type row))"
  obtain bs where bs: "snd (pre_round p idx row) = ?first # bs"
    and nbs: "filter is_comp_clause bs = []"
    using pre_round_clauses by blast
  obtain t a cs where sc: "suggest_clauses p idx row = Inr (t, a, cs)"
    and s: "s = \<lparr>suggested_rate = t, action = a, rationale = join (map render cs)\<rparr>"
    using assms by (auto simp add: suggest_def split: sum.splits)
  let ?last = "pending_clause (pending_tenant_rate row) t a"
  have cs: "cs = ?first # bs @ [?last]"
    using sc bs
    by (auto simp add: suggest_clauses_def pending_clause_def split: sum.splits option.splits)
  have one: "length (filter is_comp_clause cs) = 1"
    using nbs by (simp add: cs is_comp_clause_comp_clause not_comp_pending_clause)
  have ne: "rationale s \<noteq> []"
    by (simp add: s cs join_nonempty render_nonempty)
  obtain mid where mid: "join (map render cs) = render ?first @ mid @ '' '' @ render ?last"
    unfolding cs using join_first_last by blast
  have first: "render ?first =
      (case comp_get idx (unit_type row) of
         None \<Rightarrow> ''No competitor data; using policy caps/standard.''
       | Some c \<Rightarrow> ''Comp avg for '' @ [CHR 0x27] @ unit_type row @ [CHR 0x27] @ '' ''
           @ [CHR 0xE2, CHR 0x89, CHR 0x88] @ '' $'' @ fmt0 c @ ''.'')"
    by (simp add: comp_clause_def split: option.splits)
  have last: "render ?last =
      (case pending_tenant_rate row of
         None \<Rightarrow> ''No pending; set $'' @ fmt0 (of_int t) @ ''.''
       | Some pend \<Rightarrow> ''Pending $'' @ fmt0 pend @ '' '' @ [CHR 0xE2, CHR 0x86, CHR 0x92]
           @ '' Suggested $'' @ fmt0 (of_int t) @ '' ''
           @ [CHR 0xE2, CHR 0x87, CHR 0x92] @ '' '' @ a @ ''.'')"
    by (simp add: pending_clause_def split: option.splits)
  have st: "suggested_rate s = t" and sa: "action s = a"
    and rs: "rationale s = join (map render cs)"
    by (simp_all add: s)
  have shape: "rationale s =
      (case comp_get idx (unit_type row) of
         None \<Rightarrow> ''No competitor data; using policy caps/standard.''
       | Some c \<Rightarrow> ''Comp avg for '' @ [CHR 0x27] @ unit_type row @ [CHR 0x27] @ '' ''
           @ [CHR 0xE2, CHR 0x89, CHR 0x88] @ '' $'' @ fmt0 c @ ''.'')
      @ mid @ '' '' @
      (case pending_tenant_rate row of
         None \<Rightarrow> ''No pending; set $'' @ fmt0 (of_int (suggested_rate s)) @ ''.''
       | Some pend \<Rightarrow> ''Pending $'' @ fmt0 pend @ '' '' @ [CHR 0xE2, CHR 0x86, CHR 0x92]
           @ '' Suggested $'' @ fmt0 (of_int (suggested_rate s)) @ '' ''
           @ [CHR 0xE2, CHR 0x87, CHR 0x92] @ '' '' @ action s @ ''.'')"
    unfolding st sa rs mid first last by simp
  have "suggest_clauses p idx row = Inr (suggested_rate s, action s, cs)
      \<and> rationale s = join (map render cs) \<and> cs \<noteq> []
      \<and> hd cs = ?first
      \<and> last cs = pending_clause (pending_tenant_rate row) (suggested_rate s) (action s)"
    using sc by (simp add: s cs)
  with one ne shape show ?thesis by blast
qed

text \<open>The theorem at the sample row with a competitor average of 900: the ceiling
  clause stands between the first and the last clause.\<close>

theorem rationale_shape_witness:
  "\<exists>cs mid. suggest_clauses sidebar_defaults (\<lambda>u. Some (Some 900)) example_row = Inr (925, ''set'', cs)
     \<and> hd cs = CompAvg ''10x20'' 900 \<and> last cs = NoPending 925
     \<and> length (filter is_comp_clause cs) = 1
     \<and> join (map render cs) = ''Comp avg for '' @ [CHR 0x27] @ ''10x20'' @ [CHR 0x27] @ '' ''
          @ [CHR 0xE2, CHR 0x89, CHR 0x88] @ '' $900.'' @ mid @ '' No pending; set $925.''"
proof -
  have "\<exists>s. suggest sidebar_defaults (\<lambda>u. Some (Some 900)) example_row = Inr s
      \<and> suggested_rate s = 925 \<and> action s = ''set''"
    by (simp add: eval_defs)
  then obtain s where s: "suggest sidebar_defaults (\<lambda>u. Some (Some 900)) example_row = Inr s"
    and r: "suggested_rate s = 925" and a: "action s = ''set''"
    by blast
  have f: "fmt0 900 = ''900''" "fmt0 925 = ''925''"
    by (simp_all add: fmt0_def py_round_def)
  from rationale_shape [OF s] obtain cs mid
    where 1: "suggest_clauses sidebar_defaults (\<lambda>u. Some (Some 900)) example_row
        = Inr (suggested_rate s, action s, cs)"
      and 2: "hd cs = comp_clause (unit_type example_row) (comp_get (\<lambda>u. Some (Some 900)) (unit_type example_row))"
      and 3: "length (filter is_comp_clause cs) = 1"
      and 4: "last cs = pending_clause (pending_tenant_rate example_row) (suggested_rate s) (action s)"
      and 5: "rationale s = join (map render cs)"
      and 6: "rationale s =
               (case comp_get (\<lambda>u. Some (Some 900)) (unit_type example_row) of
                  None \<Rightarrow> ''No competitor data; using policy caps/standard.''
                | Some c \<Rightarrow> ''Comp avg for '' @ [CHR 0x27] @ unit_type example_row @ [CHR 0x27] @ '' ''
                    @ [CHR 0xE2, CHR 0x89, CHR 0x88] @ '' $'' @ fmt0 c @ ''.'')
               @ mid @ '' '' @
               (case pending_tenant_rate example_row of
                  None \<Rightarrow> ''No pending; set $'' @ fmt0 (of_int (suggested_rate s)) @ ''.''
                | Some pend \<Rightarrow> ''Pending $'' @ fmt0 pend @ '' '' @ [CHR 0xE2, CHR 0x86, CHR 0x92]
                    @ '' Suggested $'' @ fmt0 (of_int (suggested_rate s)) @ '' ''
                    @ [CHR 0xE2, CHR 0x87, CHR 0x92] @ '' '' @ action s @ ''.'')"
    by blast
  have "join (map render cs) = ''Comp avg for '' @ [CHR 0x27] @ ''10x20'' @ [CHR 0x27] @ '' ''
          @ [CHR 0xE2, CHR 0x89, CHR 0x88] @ '' $900.'' @ mid @ '' No pending; set $925.''"
    using 6 unfolding 5 by (simp add: comp_get_def example_row_def r f)
  moreover have "hd cs = CompAvg ''10x20'' 900" "last cs = NoPending 925"
    using 2 4 by (simp_all add: comp_clause_def pending_clause_def comp_get_def example_row_def r)
  ultimately show ?thesis
    using 1 3 r a by auto
qed

subsection \<open>The competitor index\<close>

lemma in_keys_rates_of:
  "u \<in> set (map (\<lambda>kr. normalize_unit (fst kr)) rows) \<longleftrightarrow> rates_of rows u \<noteq> []"
  by (auto simp add: rates_of_def filter_empty_conv)

lemma comp_by_unit_rows:
  "comp_by_unit lib manual scraped df u =
     (if rates_of (manual_rows manual) u \<noteq> []
      then Some (if numbers (rates_of (manual_rows manual) u) = [] then None
                 else group_mean lib (numbers (rates_of (manual_rows manual) u)))
      else if u \<in> set (map unit_type df) then Some (global_avg lib scraped) else None)"
proof (cases manual)
  case None
  then show ?thesis
    by (simp add: comp_by_unit_def manual_rows_def rates_of_def)
next
  case (Some rows)
  show ?thesis
  proof (cases "list_all (\<lambda>kr. is_number (snd kr)) rows")
    case True
    with Some show ?thesis
      by (simp add: comp_by_unit_def manual_rows_def manual_index_def in_keys_rates_of
          del: set_map)
  next
    case False
    with Some show ?thesis
      by (simp add: comp_by_unit_def manual_rows_def manual_index_def rates_of_def)
  qed
qed

text \<open>
  Claim C5, as the code has it. A manual table with a text cell in its rate column
  cannot be averaged and is dropped as a whole; an uploaded table of numeric and empty
  cells is kept. A unit type with at least one numeric rate in the kept table maps to
  the library's mean of these rates, whatever was scraped (with only empty rate cells
  it maps to not-a-number); a unit type of the tenant frame without a row in the kept
  table maps to the library's mean of the pooled scraped prices; and without kept rows
  and scraped prices the lookup of every unit type is not-a-number, for which the
  engine skips the band and records the "No competitor data" clause.
\<close>

theorem competitor_index:
  "(manual = Some rows \<and> \<not> list_all (\<lambda>kr. is_number (snd kr)) rows \<longrightarrow> manual_rows manual = [])
   \<and> (manual = Some rows \<and> list_all (\<lambda>kr. is_number (snd kr)) rows \<longrightarrow> manual_rows manual = rows)
   \<and> (numbers (rates_of (manual_rows manual) u) \<noteq> [] \<longrightarrow>
      comp_get (comp_by_unit lib manual scraped df) u
        = group_mean lib (numbers (rates_of (manual_rows manual) u)))
   \<and> (rates_of (manual_rows manual) u \<noteq> [] \<and> numbers (rates_of (manual_rows manual) u) = [] \<longrightarrow>
      comp_get (comp_by_unit lib manual scraped df) u = None)
   \<and> (rates_of (manual_rows manual) u = [] \<and> u \<in> set (map unit_type df)
        \<and> concat scraped \<noteq> [] \<longrightarrow>
      comp_get (comp_by_unit lib manual scraped df) u = np_mean lib (concat scraped))
   \<and> (manual_rows manual = [] \<and> concat scraped = [] \<longrightarrow>
      comp_get (comp_by_unit lib manual scraped df) u = None
      \<and> (unit_type row = u \<longrightarrow>
           pre_round p (comp_by_unit lib manual scraped df) row
             = standard_cap p (current_standard_rate row) (policy_target p row, [NoCompetitorData])))"
proof (intro conjI impI)
  show "manual_rows manual = []"
    if "manual = Some rows \<and> \<not> list_all (\<lambda>kr. is_number (snd kr)) rows"
    using that by (simp add: manual_rows_def)
  show "manual_rows manual = rows"
    if "manual = Some rows \<and> list_all (\<lambda>kr. is_number (snd kr)) rows"
    using that by (simp add: manual_rows_def)
  show "comp_get (comp_by_unit lib manual scraped df) u
        = group_mean lib (numbers (rates_of (manual_rows manual) u))"
    if "numbers (rates_of (manual_rows manual) u) \<noteq> []"
  proof -
    from that have "rates_of (manual_rows manual) u \<noteq> []"
      by (auto simp add: numbers_def)
    with that show ?thesis
      by (simp add: comp_get_def comp_by_unit_rows)
  qed
  show "comp_get (comp_by_unit lib manual scraped df) u = None"
    if "rates_of (manual_rows manual) u \<noteq> [] \<and> numbers (rates_of (manual_rows manual) u) = []"
    using that by (simp add: comp_get_def comp_by_unit_rows)
  show "comp_get (comp_by_unit lib manual scraped df) u = np_mean lib (concat scraped)"
    if "rates_of (manual_rows manual) u = [] \<and> u \<in> set (map unit_type df) \<and> concat scraped \<noteq> []"
    using that by (auto simp add: comp_get_def comp_by_unit_rows global_avg_def)
  assume none: "manual_rows manual = [] \<and> concat scraped = []"
  then have "rates_of (manual_rows manual) u = []"
    by (simp add: rates_of_def)
  with none show absent: "comp_get (comp_by_unit lib manual scraped df) u = None"
    by (auto simp add: comp_get_def comp_by_unit_rows global_avg_def)
  show "pre_round p (comp_by_unit lib manual scraped df) row
      = standard_cap p (current_standard_rate row) (policy_target p row, [NoCompetitorData])"
    if "unit_type row = u"
    using absent that by (simp add: pre_round_def comp_band_None)
qed

text \<open>The theorem with the arithmetic mean: at a manual table with two rows of one unit
  type, at a unit type that only the scraped prices cover, and at no data at all.\<close>

theorem competitor_index_witness:
  "comp_get (comp_by_unit arithmetic
       (Some [('' 10 x 20'', Number (Some 1100)), (''10X20'', Number (Some 1200))]) [[900], []]
       [example_row]) ''10x20'' = Some 1150
   \<and> comp_get (comp_by_unit arithmetic (Some [(''5x5'', Number (Some 1100))]) [[900], [], [1000]]
       [example_row]) ''10x20'' = Some 950
   \<and> comp_get (comp_by_unit arithmetic None [[]] [example_row]) ''10x20'' = None"
proof -
  have n: "normalize_unit '' 10 x 20'' = ''10x20''" "normalize_unit ''10X20'' = ''10x20''"
    "normalize_unit ''5x5'' = ''5x5''"
    by (simp_all add: normalize_unit_def strip_def lower_def is_space_def to_lower_def)
  let ?m1 = "Some [('' 10 x 20'', Number (Some 1100)), (''10X20'', Number (Some 1200))]"
  let ?m2 = "Some [(''5x5'', Number (Some 1100))]"
  have 1: "numbers (rates_of (manual_rows ?m1) ''10x20'') \<noteq> []"
    by (simp add: manual_rows_def rates_of_def numbers_def n)
  have 2: "rates_of (manual_rows ?m2) ''10x20'' = []
      \<and> ''10x20'' \<in> set (map unit_type [example_row]) \<and> concat [[900], [], [1000::real]] \<noteq> []"
    by (simp add: manual_rows_def rates_of_def n example_row_def)
  have 3: "manual_rows None = [] \<and> concat [[] :: real list] = []"
    by (simp add: manual_rows_def)
  from competitor_index [of ?m1 _ "''10x20''" arithmetic "[[900], []]" "[example_row]"] 1
    competitor_index [of ?m2 _ "''10x20''" arithmetic "[[900], [], [1000]]" "[example_row]"] 2
    competitor_index [of None _ "''10x20''" arithmetic "[[]]" "[example_row]"] 3
  show ?thesis
    by (simp add: manual_rows_def rates_of_def numbers_def n arithmetic_def mean_def)
qed

text \<open>Claim C5 as stated fails: one text cell in the rate column drops the whole
  manual table, and the unit type with the manual rate 1100 gets the scraped 900.\<close>

theorem text_cell_drops_manual_table_counterexample:
  "comp_get (comp_by_unit arithmetic
       (Some [(''10x20'', Number (Some 1100)), (''5x5'', Text ''call'')]) [[900]]
       [example_row]) ''10x20'' = Some 900"
  by (simp add: comp_get_def comp_by_unit_def manual_index_def global_avg_def arithmetic_def
      mean_def example_row_def)

subsection \<open>Normalised unit type keys\<close>































end
